theory Spec2Isabelle
  imports Main
begin

section \<open>Data model (project/models.py)\<close>

text \<open>
  A \<open>datetime\<close> is a count of microseconds since 1970-01-01T00:00:00 (the resolution of
  Python's \<open>datetime\<close>); a \<open>timedelta\<close> is a difference of two of them. Every call of
  \<open>datetime.utcnow()\<close> in the source is an explicit argument of the model, one argument
  per call, in the order of the calls.
\<close>

type_synonym datetime = int

definition timedelta_minutes :: "int \<Rightarrow> int" where
  "timedelta_minutes m = m * 60 * 1000000"

text \<open>
  Exceptions that leave a function are values: HTTP aborts (\<open>abort(code)\<close>), the storage
  layer's uniqueness violation, and the two Python run-time errors that the modelled code
  can raise on a \<open>None\<close>.
\<close>

datatype error =
    HTTPException nat
  | IntegrityError
  | AttributeError
  | TypeError

text \<open>
  Table \<open>entries\<close>. The primary key is \<open>None\<close> on an object that has not been flushed.
\<close>

record Entry =
  Entry_id :: "nat option"
  entry :: string
  user_id :: nat
  created_on :: datetime
  last_edited_on :: datetime

text \<open>Table \<open>users\<close>. Nullable columns are options.\<close>

record User =
  User_id :: "nat option"
  email :: string
  password_hashed :: string
  auth_token :: "string option"
  auth_token_expiration :: "datetime option"
  registered_on :: datetime
  email_confirmation_sent_on :: datetime
  email_confirmed :: bool
  email_confirmed_on :: "datetime option"
  user_type :: string

text \<open>
  The persistent store: the rows of both tables, in table order. A query's \<open>first()\<close> is
  the first matching row, \<open>all()\<close> is every matching row.
\<close>

record database =
  users :: "User list"
  entries :: "Entry list"

subsection \<open>Entry\<close>

definition Entry_init :: "string \<Rightarrow> nat \<Rightarrow> datetime \<Rightarrow> datetime \<Rightarrow> Entry" where
  "Entry_init entry_text uid utcnow1 utcnow2 =
     \<lparr>Entry_id = None, entry = entry_text, user_id = uid,
      created_on = utcnow1, last_edited_on = utcnow2\<rparr>"

definition Entry_update :: "Entry \<Rightarrow> string \<Rightarrow> datetime \<Rightarrow> Entry" where
  "Entry_update self entry_text utcnow =
     self\<lparr>entry := entry_text, last_edited_on := utcnow\<rparr>"

subsection \<open>User\<close>

text \<open>
  \<open>werkzeug.security.generate_password_hash\<close> and \<open>secrets.token_urlsafe\<close> are library
  calls with random output: the hash function in force at a call and the string that
  \<open>token_urlsafe\<close> returns are arguments of the model.
\<close>

definition User_init ::
  "string \<Rightarrow> string \<Rightarrow> string \<Rightarrow> (string \<Rightarrow> string) \<Rightarrow> datetime \<Rightarrow> datetime \<Rightarrow> User" where
  "User_init email_arg password_plaintext user_type_arg generate_password_hash utcnow1 utcnow2 =
     \<lparr>User_id = None, email = email_arg,
      password_hashed = generate_password_hash password_plaintext,
      auth_token = None, auth_token_expiration = None,
      registered_on = utcnow1, email_confirmation_sent_on = utcnow2,
      email_confirmed = False, email_confirmed_on = None,
      user_type = user_type_arg\<rparr>"

definition set_password :: "User \<Rightarrow> (string \<Rightarrow> string) \<Rightarrow> string \<Rightarrow> User" where
  "set_password self generate_password_hash password_plaintext =
     self\<lparr>password_hashed := generate_password_hash password_plaintext\<rparr>"

definition generate_auth_token :: "User \<Rightarrow> string \<Rightarrow> datetime \<Rightarrow> string \<times> User" where
  "generate_auth_token self token_urlsafe utcnow =
     (token_urlsafe,
      self\<lparr>auth_token := Some token_urlsafe,
           auth_token_expiration := Some (utcnow + timedelta_minutes 60)\<rparr>)"

text \<open>
  \<open>User.query.filter_by(auth_token=auth_token).first()\<close>, then
  \<open>user and user.auth_token_expiration > datetime.utcnow()\<close>: no row gives \<open>None\<close>; a
  row whose expiration is \<open>None\<close> makes the comparison raise; the function returns
  \<open>None\<close> by falling off its end when the comparison is false.
\<close>

definition verify_auth_token :: "database \<Rightarrow> string \<Rightarrow> datetime \<Rightarrow> error + User option" where
  "verify_auth_token db token utcnow =
     (case find (\<lambda>u. auth_token u = Some token) (users db) of
        None \<Rightarrow> Inr None
      | Some user \<Rightarrow>
          (case auth_token_expiration user of
             None \<Rightarrow> Inl TypeError
           | Some expiration \<Rightarrow>
               if expiration > utcnow then Inr (Some user) else Inr None))"

definition revoke_auth_token :: "User \<Rightarrow> datetime \<Rightarrow> User" where
  "revoke_auth_token self utcnow = self\<lparr>auth_token_expiration := Some utcnow\<rparr>"

subsection \<open>The database session\<close>

text \<open>
  \<open>database.session.add(user); database.session.commit()\<close> on an object loaded from the
  store writes the object's columns to the row with its primary key.
\<close>

definition commit_user :: "database \<Rightarrow> User \<Rightarrow> database" where
  "commit_user db user =
     db\<lparr>users := map (\<lambda>row. if User_id row = User_id user then user else row) (users db)\<rparr>"

text \<open>
  A new object is pending after \<open>session.add\<close>. \<open>session.commit()\<close> flushes the pending
  objects in order, each as an INSERT: column \<open>email\<close> is declared \<open>unique=True\<close>, so an
  INSERT whose email is already in the table raises \<open>IntegrityError\<close> and the transaction
  writes nothing; otherwise the row gets the next primary key. \<open>session.rollback()\<close>
  discards what is pending.
\<close>

record session =
  store :: database
  pending :: "User list"

definition next_id :: "User list \<Rightarrow> nat" where
  "next_id rows = Suc (fold max (map (\<lambda>row. case User_id row of None \<Rightarrow> 0 | Some i \<Rightarrow> i) rows) 0)"

fun flush :: "User list \<Rightarrow> User list \<Rightarrow> error + User list" where
  "flush [] rows = Inr rows"
| "flush (u # us) rows =
     (if email u \<in> set (map email rows) then Inl IntegrityError
      else flush us (rows @ [u\<lparr>User_id := Some (next_id rows)\<rparr>]))"

definition session_add :: "session \<Rightarrow> User \<Rightarrow> session" where
  "session_add s user = s\<lparr>pending := pending s @ [user]\<rparr>"

definition session_commit :: "session \<Rightarrow> error + session" where
  "session_commit s =
     (case flush (pending s) (users (store s)) of
        Inl err \<Rightarrow> Inl err
      | Inr rows \<Rightarrow> Inr \<lparr>store = (store s)\<lparr>users := rows\<rparr>, pending = []\<rparr>)"

definition session_rollback :: "session \<Rightarrow> session" where
  "session_rollback s = s\<lparr>pending := []\<rparr>"

text \<open>\<open>database.session.delete(obj)\<close> deletes the row with the object's primary key.\<close>

definition session_delete_entry :: "Entry \<Rightarrow> database \<Rightarrow> database" where
  "session_delete_entry e db =
     db\<lparr>entries := filter (\<lambda>row. Entry_id row \<noteq> Entry_id e) (entries db)\<rparr>"

definition session_delete_user :: "User \<Rightarrow> database \<Rightarrow> database" where
  "session_delete_user u db =
     db\<lparr>users := filter (\<lambda>row. User_id row \<noteq> User_id u) (users db)\<rparr>"

section \<open>Signed time-limited tokens\<close>

text \<open>
  Modelled from the spec: \<open>itsdangerous.URLSafeTimedSerializer\<close> (its \<open>dumps\<close> and
  \<open>loads\<close>) is a library that the repository imports and does not contain. The spec's
  section 4.3 gives its contract: \<open>sign(payload, purpose_salt)\<close> serializes the payload
  with a signature keyed by the server secret and scoped by the salt;
  \<open>verify(token, purpose_salt, max_age_seconds)\<close> fails with \<open>InvalidSignature\<close> if the
  signature does not match or the salt differs, fails with \<open>Expired\<close> if issuance time +
  max_age has passed, and otherwise returns the original payload. The signature is a
  symbolic term over what it signs (key, salt, payload, issuance time), so two signatures
  are equal only when all four agree. Time is in whole seconds here. Both failures are
  caught by the routes' \<open>except BadSignature\<close>.
\<close>

datatype signature = Hmac string string string int

record signed_token =
  payload :: string
  timestamp :: int
  signature :: signature

datatype BadSignature = InvalidSignature | Expired

definition dumps :: "string \<Rightarrow> string \<Rightarrow> string \<Rightarrow> int \<Rightarrow> signed_token" where
  "dumps secret_key obj salt time_now =
     \<lparr>payload = obj, timestamp = time_now, signature = Hmac secret_key salt obj time_now\<rparr>"

definition loads :: "string \<Rightarrow> signed_token \<Rightarrow> string \<Rightarrow> int \<Rightarrow> int \<Rightarrow> BadSignature + string" where
  "loads secret_key token salt max_age time_now =
     (if signature token \<noteq> Hmac secret_key salt (payload token) (timestamp token)
      then Inl InvalidSignature
      else if timestamp token + max_age < time_now then Inl Expired
      else Inr (payload token))"

section \<open>Users API (project/users_api/routes.py)\<close>

text \<open>
  A rendered page is the name of its template; a link is the endpoint and the token that
  \<open>url_for\<close> puts in it. Log lines are not modelled.
\<close>

datatype response = Template string | Redirect string

datatype url = Url (url_endpoint: string) (url_token: signed_token)

record Message =
  subject :: string
  html :: "string \<times> url"
  recipients :: "string list"

definition generate_confirmation_email :: "string \<Rightarrow> string \<Rightarrow> int \<Rightarrow> Message" where
  "generate_confirmation_email secret_key user_email time_now =
     (let confirm_url = Url ''users_api.confirm_email''
                          (dumps secret_key user_email ''email-confirmation-salt'' time_now)
      in \<lparr>subject = ''Flask Journal API - Confirm Your Email Address'',
          html = (''users_api/email_confirmation.html'', confirm_url),
          recipients = [user_email]\<rparr>)"

definition generate_password_reset_email :: "string \<Rightarrow> string \<Rightarrow> int \<Rightarrow> Message" where
  "generate_password_reset_email secret_key user_email time_now =
     (let password_reset_url = Url ''users_api.process_password_reset_token''
                                 (dumps secret_key user_email ''password-reset-salt'' time_now)
      in \<lparr>subject = ''Flask Journal API - Password Reset Requested'',
          html = (''users_api/email_password_reset.html'', password_reset_url),
          recipients = [user_email]\<rparr>)"

text \<open>
  The request body of \<open>register\<close>, validated by \<open>NewUserSchema\<close>: both fields are required
  strings.
\<close>

record NewUser =
  kw_email :: string
  kw_password_plaintext :: string

text \<open>
  \<open>register\<close>: the new object is added and committed inside \<open>try\<close>; on \<open>IntegrityError\<close>
  the session is rolled back and the request aborts with 400. Otherwise the confirmation
  message is handed to a thread and the new user, as stored, is returned.
\<close>

definition register ::
  "session \<Rightarrow> NewUser \<Rightarrow> (string \<Rightarrow> string) \<Rightarrow> datetime \<Rightarrow> datetime \<Rightarrow> string \<Rightarrow> int
     \<Rightarrow> session \<times> (error + User \<times> Message)" where
  "register s kwargs generate_password_hash utcnow1 utcnow2 secret_key time_now =
     (let new_user = User_init (kw_email kwargs) (kw_password_plaintext kwargs) ''User''
                       generate_password_hash utcnow1 utcnow2;
          s1 = session_add s new_user
      in case session_commit s1 of
           Inl err \<Rightarrow>
             if err = IntegrityError then (session_rollback s1, Inl (HTTPException 400))
             else (s1, Inl err)
         | Inr s2 \<Rightarrow>
             (let stored = last (users (store s2));
                  msg = generate_confirmation_email secret_key (email stored) time_now
              in (s2, Inr (stored, msg))))"

text \<open>
  \<open>get_auth_token\<close>: the user is the one that basic authentication found in the store.
\<close>

definition get_auth_token :: "database \<Rightarrow> User \<Rightarrow> string \<Rightarrow> datetime \<Rightarrow> database \<times> string" where
  "get_auth_token db user token_urlsafe utcnow =
     (let (token, user') = generate_auth_token user token_urlsafe utcnow
      in (commit_user db user', token))"

text \<open>
  \<open>confirm_email\<close>: \<open>user.email_confirmed\<close> is read on the result of \<open>first()\<close> with no
  test for \<open>None\<close>; on \<open>None\<close> the attribute access raises \<open>AttributeError\<close>, which
  nothing catches.
\<close>

definition confirm_email ::
  "database \<Rightarrow> string \<Rightarrow> signed_token \<Rightarrow> int \<Rightarrow> datetime \<Rightarrow> database \<times> (error + response)" where
  "confirm_email db secret_key token time_now datetime_now =
     (case loads secret_key token ''email-confirmation-salt'' 3600 time_now of
        Inl bad \<Rightarrow> (db, Inr (Template ''users_api/email_confirmation_invalid.html''))
      | Inr email_addr \<Rightarrow>
          (case find (\<lambda>u. email u = email_addr) (users db) of
             None \<Rightarrow> (db, Inl AttributeError)
           | Some user \<Rightarrow>
               if email_confirmed user
               then (db, Inr (Template ''users_api/email_confirmation_duplicate.html''))
               else (commit_user db
                       (user\<lparr>email_confirmed := True, email_confirmed_on := Some datetime_now\<rparr>),
                     Inr (Template ''users_api/email_confirmed.html''))))"

text \<open>
  \<open>process_password_reset_token\<close>: \<open>form\<close> is \<open>Some password\<close> when
  \<open>form.validate_on_submit()\<close> holds with that password, \<open>None\<close> otherwise.
\<close>

definition process_password_reset_token ::
  "database \<Rightarrow> string \<Rightarrow> signed_token \<Rightarrow> int \<Rightarrow> string option \<Rightarrow> (string \<Rightarrow> string)
     \<Rightarrow> database \<times> (error + response)" where
  "process_password_reset_token db secret_key token time_now form generate_password_hash =
     (case loads secret_key token ''password-reset-salt'' 3600 time_now of
        Inl bad \<Rightarrow> (db, Inr (Template ''users_api/password_reset_invalid.html''))
      | Inr email_addr \<Rightarrow>
          (case form of
             Some password_data \<Rightarrow>
               (case find (\<lambda>u. email u = email_addr) (users db) of
                  None \<Rightarrow> (db, Inr (Template ''users_api/password_reset_invalid.html''))
                | Some user \<Rightarrow>
                    (commit_user db (set_password user generate_password_hash password_data),
                     Inr (Template ''users_api/password_updated.html'')))
           | None \<Rightarrow> (db, Inr (Template ''users_api/reset_password_with_token.html''))))"

section \<open>Admin console (project/admin/routes.py)\<close>

text \<open>
  \<open>admin_delete_user\<close> runs behind \<open>login_required\<close> and \<open>admin_required\<close>; this is its
  body. The index comes from the URL converter \<open>int\<close>, which accepts unsigned digits only.
  The result carries the flashed message and its category.
\<close>

definition admin_delete_user ::
  "database \<Rightarrow> nat \<Rightarrow> database \<times> (error + (string \<times> string) \<times> response)" where
  "admin_delete_user db index =
     (case find (\<lambda>u. User_id u = Some index) (users db) of
        None \<Rightarrow> (db, Inl (HTTPException 404))
      | Some user \<Rightarrow>
          if user_type user = ''Admin''
          then (db, Inr ((''Cannot delete Administrator ('' @ email user @ '')!'', ''error''),
                         Redirect ''admin.admin_list_users''))
          else
            (let owned = filter (\<lambda>e. Some (user_id e) = User_id user) (entries db);
                 db1 = fold session_delete_entry owned db;
                 db2 = session_delete_user user db1
             in (db2, Inr ((''User ('' @ email user @
                              '') and their associated journal entries were deleted!'',
                            ''success''),
                           Redirect ''admin.admin_list_users''))))"

section \<open>Demonstration API (project/demo/routes.py)\<close>

text \<open>
  The fixture is a module-level list of dicts with the five keys of an entry. Each handler
  takes the list and, where it can change it, returns it.
\<close>

record demo_dict =
  d_id :: nat
  d_entry :: string
  d_user_id :: nat
  d_created_on :: datetime
  d_last_edited_on :: datetime

definition demo_entries :: "demo_dict list" where
  "demo_entries =
     [\<lparr>d_id = 1, d_entry = ''I went for a great walk at the park today.'', d_user_id = 0,
       d_created_on = 1656649790307527, d_last_edited_on = 1656649790307527\<rparr>,
      \<lparr>d_id = 2, d_entry = ''I tried a new pasta recipe for dinner tonight.'', d_user_id = 0,
       d_created_on = 1656743390307527, d_last_edited_on = 1656743390307527\<rparr>,
      \<lparr>d_id = 3,
       d_entry = ''There was a great new movie on Netflix that I watched tonight.'',
       d_user_id = 0,
       d_created_on = 1656746990307527, d_last_edited_on = 1656746990307527\<rparr>,
      \<lparr>d_id = 4,
       d_entry = ''There was so much fresh fruit at the grocery store, so I made a great fruit salad with dinner.'',
       d_user_id = 0,
       d_created_on = 1656772190307527, d_last_edited_on = 1656772190307527\<rparr>,
      \<lparr>d_id = 5,
       d_entry = ''I got an email from an old friend today that was a really nice surprise.'',
       d_user_id = 0,
       d_created_on = 1656869390307527, d_last_edited_on = 1656869390307527\<rparr>]"

definition demo_add_journal_entry ::
  "demo_dict list \<Rightarrow> string \<Rightarrow> datetime \<Rightarrow> datetime \<Rightarrow> demo_dict list \<times> demo_dict" where
  "demo_add_journal_entry es kwargs_entry utcnow1 utcnow2 =
     (let new_message = \<lparr>d_id = length es + 1, d_entry = kwargs_entry, d_user_id = 0,
                         d_created_on = utcnow1, d_last_edited_on = utcnow2\<rparr>
      in (es, new_message))"

definition demo_get_journal_entry :: "demo_dict list \<Rightarrow> nat \<Rightarrow> error + demo_dict" where
  "demo_get_journal_entry es index =
     (if index = 0 \<or> index > length es then Inl (HTTPException 404)
      else Inr (es ! (index - 1)))"

definition demo_update_journal_entry ::
  "demo_dict list \<Rightarrow> string \<Rightarrow> nat \<Rightarrow> demo_dict list \<times> (error + demo_dict)" where
  "demo_update_journal_entry es kwargs_entry index =
     (if index = 0 \<or> index > length es then (es, Inl (HTTPException 404))
      else
        (let e = (es ! (index - 1))\<lparr>d_entry := kwargs_entry\<rparr>
         in (es[index - 1 := e], Inr e)))"

definition demo_delete_journal_entry ::
  "demo_dict list \<Rightarrow> nat \<Rightarrow> demo_dict list \<times> (error + string \<times> nat)" where
  "demo_delete_journal_entry es index =
     (if index = 0 \<or> index > length es then (es, Inl (HTTPException 404))
      else (es, Inr ('''', 204)))"

section \<open>CLI commands (project/__init__.py)\<close>

text \<open>
  The store after \<open>init_db\<close> and \<open>fill_db\<close>: two users and three entries, with the primary
  keys that the empty tables assign, when every clock reading of the command is \<open>utcnow\<close>.
\<close>

definition fill_database :: "(string \<Rightarrow> string) \<Rightarrow> datetime \<Rightarrow> database" where
  "fill_database generate_password_hash utcnow =
     \<lparr>users =
        [(User_init ''pkennedy@hey.com'' ''FlaskIsAwesome123'' ''User''
            generate_password_hash utcnow utcnow)\<lparr>User_id := Some 1\<rparr>,
         (User_init ''patkennedy79@gmail.com'' ''FlaskIsTheBest456'' ''User''
            generate_password_hash utcnow utcnow)\<lparr>User_id := Some 2\<rparr>],
      entries =
        [(Entry_init ''The sun was shining when I woke up this morning.'' 1 utcnow utcnow)
           \<lparr>Entry_id := Some 1\<rparr>,
         (Entry_init ''I tried a new fruit mixture in my oatmeal for breakfast.'' 1 utcnow utcnow)
           \<lparr>Entry_id := Some 2\<rparr>,
         (Entry_init ''Today I ate a great sandwich for lunch.'' 2 utcnow utcnow)
           \<lparr>Entry_id := Some 3\<rparr>]\<rparr>"

section \<open>Properties\<close>

subsection \<open>Helper lemmas\<close>

lemma find_map_replace_first:
  "find P xs = Some u \<Longrightarrow> P u' \<Longrightarrow>
   find P (map (\<lambda>row. if k row = k u then u' else row) xs) = Some u'"
  by (induction xs) (auto split: if_splits)

lemma find_map_replace_fresh:
  "u \<in> set xs \<Longrightarrow> P u' \<Longrightarrow> \<forall>row \<in> set xs. k row \<noteq> k u \<longrightarrow> \<not> P row \<Longrightarrow>
   find P (map (\<lambda>row. if k row = k u then u' else row) xs) = Some u'"
  by (induction xs) (auto split: if_splits)

lemma find_Some_holds: "find P xs = Some u \<Longrightarrow> P u \<and> u \<in> set xs"
  by (induction xs) (auto split: if_splits)

lemma flush_existing_email:
  "email u \<in> set (map email rows) \<Longrightarrow> flush (ps @ [u]) rows = Inl IntegrityError"
proof (induction ps arbitrary: rows)
  case Nil
  then show ?case by simp
next
  case (Cons p ps)
  then show ?case by simp
qed

lemma users_fold_delete: "users (fold session_delete_entry es db) = users db"
  by (induction es arbitrary: db) (simp_all add: session_delete_entry_def)

lemma entries_fold_delete:
  "entries (fold session_delete_entry es db) =
     filter (\<lambda>row. Entry_id row \<notin> Entry_id ` set es) (entries db)"
  by (induction es arbitrary: db) (auto simp: session_delete_entry_def intro: filter_cong)

lemma admin_delete_user_store:
  assumes "find (\<lambda>u. User_id u = Some index) (users db) = Some user"
    and "user_type user \<noteq> ''Admin''"
  shows "fst (admin_delete_user db index) =
     \<lparr>users = filter (\<lambda>row. User_id row \<noteq> Some index) (users db),
      entries = filter (\<lambda>row. Entry_id row \<notin>
                  Entry_id ` {e \<in> set (entries db). user_id e = index}) (entries db)\<rparr>"
proof -
  have key: "User_id user = Some index"
    using find_Some_holds [OF assms(1)] by simp
  have "{e \<in> set (entries db). Some (user_id e) = Some index} =
        {e \<in> set (entries db). user_id e = index}"
    by auto
  then show ?thesis
    using assms
    by (simp add: admin_delete_user_def Let_def session_delete_user_def
        users_fold_delete entries_fold_delete key)
qed

subsection \<open>Bearer tokens: issue and verify\<close>

text \<open>
  C1. Issuing a bearer token for a stored user, with a token string that no other user's
  row holds, stores the token on the user's row with expiration equal to the issuance
  time plus 60 minutes. \<open>verify_auth_token\<close> on that token then returns the user at every
  time strictly before the expiration, in particular 59 minutes after issuance, and returns
  \<open>None\<close> at every time at or after the expiration, in particular 61 minutes after
  issuance.
\<close>

theorem bearer_token_window:
  assumes member: "user \<in> set (users db)"
    and fresh: "\<forall>row \<in> set (users db). User_id row \<noteq> User_id user \<longrightarrow> auth_token row \<noteq> Some tok"
    and issued: "get_auth_token db user tok now = (db', token)"
  shows "token = tok \<and>
    (\<exists>stored \<in> set (users db').
       User_id stored = User_id user \<and> email stored = email user \<and>
       auth_token stored = Some tok \<and>
       auth_token_expiration stored = Some (now + timedelta_minutes 60) \<and>
       (\<forall>t. t < now + timedelta_minutes 60 \<longrightarrow> verify_auth_token db' tok t = Inr (Some stored)) \<and>
       (\<forall>t. now + timedelta_minutes 60 \<le> t \<longrightarrow> verify_auth_token db' tok t = Inr None) \<and>
       verify_auth_token db' tok (now + timedelta_minutes 59) = Inr (Some stored) \<and>
       verify_auth_token db' tok (now + timedelta_minutes 61) = Inr None)"
proof -
  define stored where
    "stored = user\<lparr>auth_token := Some tok, auth_token_expiration := Some (now + timedelta_minutes 60)\<rparr>"
  have db': "db' = commit_user db stored" and tok: "token = tok"
    using issued by (auto simp: get_auth_token_def generate_auth_token_def stored_def)
  have holds: "auth_token stored = Some tok"
    by (simp add: stored_def)
  have key: "User_id stored = User_id user"
    by (simp add: stored_def)
  have found: "find (\<lambda>u. auth_token u = Some tok) (users db') = Some stored"
    unfolding db' commit_user_def
    using find_map_replace_fresh
      [of user "users db" "\<lambda>u. auth_token u = Some tok" stored User_id] member holds fresh
    by (simp add: key)
  have inset: "stored \<in> set (users db')"
    using find_Some_holds [OF found] by simp
  have verify: "verify_auth_token db' tok t =
      (if now + timedelta_minutes 60 > t then Inr (Some stored) else Inr None)" for t
    by (simp add: verify_auth_token_def found) (simp add: stored_def)
  have "timedelta_minutes 59 < timedelta_minutes 60" "timedelta_minutes 60 < timedelta_minutes 61"
    by (simp_all add: timedelta_minutes_def)
  then show ?thesis
    using tok inset key by (intro conjI bexI [of _ stored]) (simp_all add: verify, simp_all add: stored_def)
qed

text \<open>
  The theorem at the store that \<open>fill_db\<close> leaves, for its first user, issuing at time 0:
  the token verifies at 59 minutes and no longer at 61 minutes.
\<close>

theorem bearer_token_window_witness:
  "users (fill_database rev 0) ! 0 \<in> set (users (fill_database rev 0)) \<and>
   snd (get_auth_token (fill_database rev 0) (users (fill_database rev 0) ! 0) ''t0k3n'' 0) =
     ''t0k3n'' \<and>
   (\<exists>stored \<in> set (users (fst (get_auth_token (fill_database rev 0)
                                   (users (fill_database rev 0) ! 0) ''t0k3n'' 0))).
      User_id stored = Some 1 \<and> email stored = ''pkennedy@hey.com'' \<and>
      auth_token stored = Some ''t0k3n'' \<and>
      auth_token_expiration stored = Some 3600000000 \<and>
      verify_auth_token (fst (get_auth_token (fill_database rev 0)
                                   (users (fill_database rev 0) ! 0) ''t0k3n'' 0))
        ''t0k3n'' 3540000000 = Inr (Some stored) \<and>
      verify_auth_token (fst (get_auth_token (fill_database rev 0)
                                   (users (fill_database rev 0) ! 0) ''t0k3n'' 0))
        ''t0k3n'' 3660000000 = Inr None)"
proof -
  let ?db = "fill_database rev 0"
  let ?user = "users ?db ! 0"
  let ?out = "get_auth_token ?db ?user ''t0k3n'' 0"
  have member: "?user \<in> set (users ?db)"
    by (simp add: fill_database_def)
  have fresh: "\<forall>row \<in> set (users ?db). User_id row \<noteq> User_id ?user \<longrightarrow>
      auth_token row \<noteq> Some ''t0k3n''"
    by (simp add: fill_database_def User_init_def)
  have issued: "?out = (fst ?out, snd ?out)"
    by simp
  have who: "User_id ?user = Some 1" "email ?user = ''pkennedy@hey.com''"
    by (simp_all add: fill_database_def User_init_def)
  from bearer_token_window [OF member fresh issued]
  obtain stored where stored: "stored \<in> set (users (fst ?out))"
      "User_id stored = User_id ?user" "email stored = email ?user"
      "auth_token stored = Some ''t0k3n''"
      "auth_token_expiration stored = Some (0 + timedelta_minutes 60)"
      "verify_auth_token (fst ?out) ''t0k3n'' (0 + timedelta_minutes 59) = Inr (Some stored)"
      "verify_auth_token (fst ?out) ''t0k3n'' (0 + timedelta_minutes 61) = Inr None"
    and token: "snd ?out = ''t0k3n''"
    by blast
  have "timedelta_minutes 59 = 3540000000" "timedelta_minutes 60 = 3600000000"
    "timedelta_minutes 61 = 3660000000"
    by (simp_all add: timedelta_minutes_def)
  with stored who have "User_id stored = Some 1 \<and> email stored = ''pkennedy@hey.com'' \<and>
      auth_token stored = Some ''t0k3n'' \<and>
      auth_token_expiration stored = Some 3600000000 \<and>
      verify_auth_token (fst ?out) ''t0k3n'' 3540000000 = Inr (Some stored) \<and>
      verify_auth_token (fst ?out) ''t0k3n'' 3660000000 = Inr None"
    by simp
  with stored(1) member token show ?thesis
    by blast
qed

subsection \<open>Bearer tokens: revoke\<close>

text \<open>
  C2. For a user whose bearer token currently verifies, \<open>revoke_auth_token\<close> sets the
  expiration to the current time and leaves the token string as it is; once the revoked
  user is committed, \<open>verify_auth_token\<close> on the same token string returns \<open>None\<close> at the
  time of revocation and at every later time.
\<close>

theorem revoke_invalidates_token:
  assumes valid: "verify_auth_token db tok now = Inr (Some user)"
  shows "auth_token (revoke_auth_token user now) = Some tok \<and>
    auth_token (revoke_auth_token user now) = auth_token user \<and>
    auth_token_expiration (revoke_auth_token user now) = Some now \<and>
    (\<forall>t. now \<le> t \<longrightarrow>
       verify_auth_token (commit_user db (revoke_auth_token user now)) tok t = Inr None)"
proof -
  have found: "find (\<lambda>u. auth_token u = Some tok) (users db) = Some user"
    using valid by (auto simp: verify_auth_token_def split: option.splits if_splits)
  then have holds: "auth_token user = Some tok"
    using find_Some_holds [OF found] by simp
  let ?revoked = "revoke_auth_token user now"
  have holds': "auth_token ?revoked = Some tok"
    by (simp add: revoke_auth_token_def holds)
  have key: "User_id ?revoked = User_id user"
    by (simp add: revoke_auth_token_def)
  have "find (\<lambda>u. auth_token u = Some tok) (users (commit_user db ?revoked)) = Some ?revoked"
    unfolding commit_user_def
    using find_map_replace_first [of "\<lambda>u. auth_token u = Some tok" "users db" user ?revoked User_id]
      found holds'
    by (simp add: key)
  then have "verify_auth_token (commit_user db ?revoked) tok t = Inr None" if "now \<le> t" for t
    using that by (simp add: verify_auth_token_def) (simp add: revoke_auth_token_def)
  then show ?thesis
    using holds holds' by (simp add: revoke_auth_token_def)
qed

text \<open>
  The theorem at the same store, after the first user got a token at time 0: revoking at
  time 1000 keeps the token string, and the token is refused at 1000 and at 1001.
\<close>

theorem revoke_invalidates_token_witness:
  "verify_auth_token
     (fst (get_auth_token (fill_database rev 0) (users (fill_database rev 0) ! 0) ''t0k3n'' 0))
     ''t0k3n'' 1000 =
     Inr (Some (snd (generate_auth_token (users (fill_database rev 0) ! 0) ''t0k3n'' 0))) \<and>
   auth_token (revoke_auth_token
       (snd (generate_auth_token (users (fill_database rev 0) ! 0) ''t0k3n'' 0)) 1000) =
     Some ''t0k3n'' \<and>
   auth_token_expiration (revoke_auth_token
       (snd (generate_auth_token (users (fill_database rev 0) ! 0) ''t0k3n'' 0)) 1000) =
     Some 1000 \<and>
   verify_auth_token
     (commit_user
        (fst (get_auth_token (fill_database rev 0) (users (fill_database rev 0) ! 0) ''t0k3n'' 0))
        (revoke_auth_token
           (snd (generate_auth_token (users (fill_database rev 0) ! 0) ''t0k3n'' 0)) 1000))
     ''t0k3n'' 1000 = Inr None \<and>
   verify_auth_token
     (commit_user
        (fst (get_auth_token (fill_database rev 0) (users (fill_database rev 0) ! 0) ''t0k3n'' 0))
        (revoke_auth_token
           (snd (generate_auth_token (users (fill_database rev 0) ! 0) ''t0k3n'' 0)) 1000))
     ''t0k3n'' 1001 = Inr None"
proof -
  let ?db = "fst (get_auth_token (fill_database rev 0) (users (fill_database rev 0) ! 0) ''t0k3n'' 0)"
  let ?user = "snd (generate_auth_token (users (fill_database rev 0) ! 0) ''t0k3n'' 0)"
  have valid: "verify_auth_token ?db ''t0k3n'' 1000 = Inr (Some ?user)"
    by (simp add: verify_auth_token_def get_auth_token_def generate_auth_token_def
        commit_user_def fill_database_def User_init_def timedelta_minutes_def)
  from revoke_invalidates_token [OF valid] valid show ?thesis
    by simp
qed

subsection \<open>Salt isolation of signed tokens\<close>

text \<open>
  C3. For every email payload, secret and time, the token that the confirmation email
  carries (signed with the salt \<open>email-confirmation-salt\<close>) is rejected with
  \<open>InvalidSignature\<close> by the \<open>loads\<close> call of the password-reset handler, and the handler
  renders the invalid-link page without touching the store. A token that this \<open>loads\<close> call
  accepts is one signed with \<open>password-reset-salt\<close> under the same secret, and such a token
  is accepted until its age exceeds 3600 seconds.
\<close>

theorem salt_isolation:
  "loads secret_key (url_token (snd (html (generate_confirmation_email secret_key email_addr t0))))
     ''password-reset-salt'' 3600 t = Inl InvalidSignature \<and>
   process_password_reset_token db secret_key
     (url_token (snd (html (generate_confirmation_email secret_key email_addr t0))))
     t form generate_password_hash =
     (db, Inr (Template ''users_api/password_reset_invalid.html'')) \<and>
   loads secret_key (dumps secret_key email_addr ''email-confirmation-salt'' t0)
     ''password-reset-salt'' 3600 t = Inl InvalidSignature \<and>
   (loads secret_key token ''password-reset-salt'' 3600 t = Inr p \<longrightarrow>
      token = dumps secret_key p ''password-reset-salt'' (timestamp token)) \<and>
   (t \<le> t0 + 3600 \<longrightarrow>
      loads secret_key
        (url_token (snd (html (generate_password_reset_email secret_key email_addr t0))))
        ''password-reset-salt'' 3600 t = Inr email_addr)"
  by (auto simp: loads_def dumps_def process_password_reset_token_def
      generate_confirmation_email_def generate_password_reset_email_def split: if_splits)

text \<open>
  The theorem for the payload \<open>a@example.com\<close>, issued at second 0 and presented at second
  1000.
\<close>

theorem salt_isolation_witness:
  "(1000::int) \<le> 0 + 3600 \<and>
   loads ''secret''
     (url_token (snd (html (generate_password_reset_email ''secret'' ''a@example.com'' 0))))
     ''password-reset-salt'' 3600 1000 = Inr ''a@example.com'' \<and>
   loads ''secret''
     (url_token (snd (html (generate_confirmation_email ''secret'' ''a@example.com'' 0))))
     ''password-reset-salt'' 3600 1000 = Inl InvalidSignature \<and>
   process_password_reset_token (fill_database rev 0) ''secret''
     (url_token (snd (html (generate_confirmation_email ''secret'' ''a@example.com'' 0))))
     1000 (Some ''NewSecret456'') rev =
     (fill_database rev 0, Inr (Template ''users_api/password_reset_invalid.html''))"
  using salt_isolation [of "''secret''" "''a@example.com''" 0 1000 "fill_database rev 0"
      "Some ''NewSecret456''" rev
      "dumps ''secret'' ''a@example.com'' ''password-reset-salt'' 0" "''a@example.com''"]
  by simp

subsection \<open>Registration with an existing email\<close>

text \<open>
  C4. When the email of a registration request is the email of a stored user, \<open>register\<close>
  aborts with HTTP 400, the store is the same as before (no row is added), and nothing is
  left pending in the session: the failed transaction has been rolled back.
\<close>

theorem register_duplicate_email:
  assumes "kw_email kwargs \<in> set (map email (users (store s)))"
  shows "register s kwargs generate_password_hash utcnow1 utcnow2 secret_key time_now =
           (s\<lparr>pending := []\<rparr>, Inl (HTTPException 400)) \<and>
         store (fst (register s kwargs generate_password_hash utcnow1 utcnow2 secret_key time_now)) =
           store s"
proof -
  let ?new = "User_init (kw_email kwargs) (kw_password_plaintext kwargs) ''User''
                generate_password_hash utcnow1 utcnow2"
  have "email ?new = kw_email kwargs"
    by (simp add: User_init_def)
  then have "flush (pending s @ [?new]) (users (store s)) = Inl IntegrityError"
    using assms flush_existing_email [of ?new "users (store s)" "pending s"] by simp
  then have "session_commit (session_add s ?new) = Inl IntegrityError"
    by (simp add: session_commit_def session_add_def)
  then show ?thesis
    by (simp add: register_def Let_def session_rollback_def session_add_def)
qed

text \<open>
  The theorem at the store that \<open>fill_db\<close> leaves, for a request with the email of its
  first user.
\<close>

theorem register_duplicate_email_witness:
  "kw_email \<lparr>kw_email = ''pkennedy@hey.com'', kw_password_plaintext = ''Secret123''\<rparr>
     \<in> set (map email (users (store \<lparr>store = fill_database rev 0, pending = []\<rparr>))) \<and>
   register \<lparr>store = fill_database rev 0, pending = []\<rparr>
     \<lparr>kw_email = ''pkennedy@hey.com'', kw_password_plaintext = ''Secret123''\<rparr>
     rev 5 6 ''secret'' 7 =
     (\<lparr>store = fill_database rev 0, pending = []\<rparr>, Inl (HTTPException 400))"
proof -
  let ?s = "\<lparr>store = fill_database rev 0, pending = []\<rparr>"
  let ?kwargs = "\<lparr>kw_email = ''pkennedy@hey.com'', kw_password_plaintext = ''Secret123''\<rparr>"
  have exists: "kw_email ?kwargs \<in> set (map email (users (store ?s)))"
    by (simp add: fill_database_def User_init_def)
  from register_duplicate_email [OF exists, of rev 5 6 "''secret''" 7] exists show ?thesis
    by simp
qed

subsection \<open>Admin delete-user\<close>

text \<open>
  C5. Let the admin delete-user operation target the id of a stored user. If the user's
  \<open>user_type\<close> is \<open>Admin\<close>, the operation flashes an error and returns the store as it
  was, so the user and the user's entries remain. Otherwise it flashes success, and
  afterwards no entry has the target as its \<open>user_id\<close> and no user has the target id;
  nothing is added to either table, and when the entries' primary keys are distinct the
  entries that remain are exactly those of the other users.
\<close>

theorem admin_delete_user_cascade:
  assumes target: "find (\<lambda>u. User_id u = Some index) (users db) = Some user"
  shows "(user_type user = ''Admin'' \<longrightarrow>
            admin_delete_user db index =
              (db, Inr ((''Cannot delete Administrator ('' @ email user @ '')!'', ''error''),
                        Redirect ''admin.admin_list_users''))) \<and>
         (user_type user \<noteq> ''Admin'' \<longrightarrow>
            (\<exists>msg. snd (admin_delete_user db index) =
               Inr ((msg, ''success''), Redirect ''admin.admin_list_users'')) \<and>
            (\<forall>e \<in> set (entries (fst (admin_delete_user db index))). user_id e \<noteq> index) \<and>
            (\<forall>u \<in> set (users (fst (admin_delete_user db index))). User_id u \<noteq> Some index) \<and>
            set (entries (fst (admin_delete_user db index))) \<subseteq> set (entries db) \<and>
            set (users (fst (admin_delete_user db index))) \<subseteq> set (users db) \<and>
            (distinct (map Entry_id (entries db)) \<longrightarrow>
               entries (fst (admin_delete_user db index)) =
                 filter (\<lambda>e. user_id e \<noteq> index) (entries db)))"
proof (intro conjI impI)
  assume "user_type user = ''Admin''"
  then show "admin_delete_user db index =
      (db, Inr ((''Cannot delete Administrator ('' @ email user @ '')!'', ''error''),
                Redirect ''admin.admin_list_users''))"
    using target by (simp add: admin_delete_user_def)
next
  assume "user_type user \<noteq> ''Admin''"
  then show "\<exists>msg. snd (admin_delete_user db index) =
      Inr ((msg, ''success''), Redirect ''admin.admin_list_users'')"
    using target by (simp add: admin_delete_user_def Let_def)
next
  assume na: "user_type user \<noteq> ''Admin''"
  show "\<forall>e \<in> set (entries (fst (admin_delete_user db index))). user_id e \<noteq> index"
    by (auto simp: admin_delete_user_store [OF target na])
next
  assume na: "user_type user \<noteq> ''Admin''"
  show "\<forall>u \<in> set (users (fst (admin_delete_user db index))). User_id u \<noteq> Some index"
    by (simp add: admin_delete_user_store [OF target na])
next
  assume na: "user_type user \<noteq> ''Admin''"
  show "set (entries (fst (admin_delete_user db index))) \<subseteq> set (entries db)"
    by (auto simp: admin_delete_user_store [OF target na])
next
  assume na: "user_type user \<noteq> ''Admin''"
  show "set (users (fst (admin_delete_user db index))) \<subseteq> set (users db)"
    by (auto simp: admin_delete_user_store [OF target na])
next
  assume na: "user_type user \<noteq> ''Admin''" and pk: "distinct (map Entry_id (entries db))"
  have "Entry_id row \<notin> Entry_id ` {e \<in> set (entries db). user_id e = index} \<longleftrightarrow>
        user_id row \<noteq> index" if "row \<in> set (entries db)" for row
    using that pk by (auto simp: distinct_map dest: inj_onD)
  then show "entries (fst (admin_delete_user db index)) =
      filter (\<lambda>e. user_id e \<noteq> index) (entries db)"
    by (simp add: admin_delete_user_store [OF target na] cong: filter_cong)
qed

text \<open>
  The theorem at the store that \<open>fill_db\<close> leaves, with an administrator added as user 3:
  deleting user 3 is refused and changes nothing; deleting user 1 leaves users 2 and 3 and
  the one entry of user 2.
\<close>

theorem admin_delete_user_cascade_witness:
  "(let admin = (User_init ''admin@example.com'' ''AdminPass789'' ''Admin'' rev 0 0)
                  \<lparr>User_id := Some 3\<rparr>;
        db = (fill_database rev 0)\<lparr>users := users (fill_database rev 0) @ [admin]\<rparr>
    in find (\<lambda>u. User_id u = Some 3) (users db) = Some admin \<and>
       user_type admin = ''Admin'' \<and>
       admin_delete_user db 3 =
         (db, Inr ((''Cannot delete Administrator (admin@example.com)!'', ''error''),
                   Redirect ''admin.admin_list_users'')) \<and>
       find (\<lambda>u. User_id u = Some 1) (users db) = Some (users db ! 0) \<and>
       user_type (users db ! 0) \<noteq> ''Admin'' \<and>
       distinct (map Entry_id (entries db)) \<and>
       entries (fst (admin_delete_user db 1)) = [entries db ! 2] \<and>
       map User_id (users (fst (admin_delete_user db 1))) = [Some 2, Some 3] \<and>
       list_all (\<lambda>e. user_id e \<noteq> 1) (entries (fst (admin_delete_user db 1))) \<and>
       list_all (\<lambda>u. User_id u \<noteq> Some 1) (users (fst (admin_delete_user db 1))))"
proof -
  define admin where
    "admin = (User_init ''admin@example.com'' ''AdminPass789'' ''Admin'' rev 0 0)\<lparr>User_id := Some 3\<rparr>"
  define db where "db = (fill_database rev 0)\<lparr>users := users (fill_database rev 0) @ [admin]\<rparr>"
  have users: "users db = users (fill_database rev 0) @ [admin]"
    and entries: "entries db = entries (fill_database rev 0)"
    by (simp_all add: db_def)
  have target3: "find (\<lambda>u. User_id u = Some 3) (users db) = Some admin"
    by (simp add: users admin_def fill_database_def User_init_def)
  have admin: "user_type admin = ''Admin''" "email admin = ''admin@example.com''"
    by (simp_all add: admin_def User_init_def)
  have target1: "find (\<lambda>u. User_id u = Some 1) (users db) = Some (users db ! 0)"
    by (simp add: users fill_database_def User_init_def)
  have plain: "user_type (users db ! 0) \<noteq> ''Admin''"
    by (simp add: users fill_database_def User_init_def)
  have pk: "distinct (map Entry_id (entries db))"
    by (simp add: entries fill_database_def Entry_init_def)
  have kept: "entries (fst (admin_delete_user db 1)) = [entries db ! 2]"
    using admin_delete_user_cascade [OF target1] plain pk
    by (simp add: entries fill_database_def Entry_init_def)
  have gone: "\<forall>u \<in> set (users (fst (admin_delete_user db 1))). User_id u \<noteq> Some 1"
    using admin_delete_user_cascade [OF target1] plain by simp
  have orphans: "\<forall>e \<in> set (entries (fst (admin_delete_user db 1))). user_id e \<noteq> 1"
    using admin_delete_user_cascade [OF target1] plain by simp
  have left: "map User_id (users (fst (admin_delete_user db 1))) = [Some 2, Some 3]"
    unfolding admin_delete_user_store [OF target1 plain]
    by (simp add: users admin_def fill_database_def User_init_def)
  have refused: "admin_delete_user db 3 =
      (db, Inr ((''Cannot delete Administrator (admin@example.com)!'', ''error''),
                Redirect ''admin.admin_list_users''))"
    using admin_delete_user_cascade [OF target3] admin by simp
  show ?thesis
    unfolding Let_def admin_def [symmetric] db_def [symmetric]
    using target3 admin(1) refused target1 plain pk kept left gone orphans
    by (simp add: list_all_iff)
qed

subsection \<open>Entry.update\<close>

text \<open>
  C6. For every entry and every new text, \<open>Entry.update\<close> sets the entry's text to the new
  text and sets \<open>last_edited_on\<close> to the current time; \<open>created_on\<close>, the entry's id and
  its \<open>user_id\<close> are the same after the update as before.
\<close>

theorem Entry_update_frame:
  "entry (Entry_update e txt now) = txt \<and>
   last_edited_on (Entry_update e txt now) = now \<and>
   created_on (Entry_update e txt now) = created_on e \<and>
   Entry_id (Entry_update e txt now) = Entry_id e \<and>
   user_id (Entry_update e txt now) = user_id e"
  by (simp add: Entry_update_def)

subsection \<open>Demonstration API: delete\<close>

text \<open>
  C7, as the code has it. In the demonstration API, \<open>delete\<close> with an index between 1 and
  the number of fixture entries answers 204 with an empty body and leaves the fixture as
  it was, so that a following \<open>get\<close> of the same index returns the same entry; \<open>delete\<close>
  with index 0 or an index above the number of entries fails with 404.
\<close>

theorem demo_delete_keeps_fixture:
  "(1 \<le> index \<and> index \<le> length es \<longrightarrow>
      demo_delete_journal_entry es index = (es, Inr ('''', 204)) \<and>
      demo_get_journal_entry (fst (demo_delete_journal_entry es index)) index =
        Inr (es ! (index - 1))) \<and>
   (index = 0 \<or> index > length es \<longrightarrow>
      demo_delete_journal_entry es index = (es, Inl (HTTPException 404)))"
  by (auto simp: demo_delete_journal_entry_def demo_get_journal_entry_def)

text \<open>The theorem at the fixture, for the indices 2, 0 and 6.\<close>

theorem demo_delete_keeps_fixture_witness:
  "demo_delete_journal_entry demo_entries 2 = (demo_entries, Inr ('''', 204)) \<and>
   demo_get_journal_entry (fst (demo_delete_journal_entry demo_entries 2)) 2 =
     Inr (demo_entries ! 1) \<and>
   demo_delete_journal_entry demo_entries 0 = (demo_entries, Inl (HTTPException 404)) \<and>
   demo_delete_journal_entry demo_entries 6 = (demo_entries, Inl (HTTPException 404))"
proof -
  have len: "length demo_entries = 5"
    by (simp add: demo_entries_def)
  show ?thesis
    using demo_delete_keeps_fixture [of 2 demo_entries]
      demo_delete_keeps_fixture [of 0 demo_entries]
      demo_delete_keeps_fixture [of 6 demo_entries]
    by (auto simp: len)
qed

text \<open>
  The claim C7 reads "removes that entry permanently, so that a subsequent get of the same
  index fails with NotFound". On the fixture, after \<open>delete\<close> of index 1 the \<open>get\<close> of
  index 1 does not fail with 404.
\<close>

theorem demo_delete_counterexample:
  "(1::nat) \<le> 1 \<and> 1 \<le> length demo_entries \<and>
   demo_get_journal_entry (fst (demo_delete_journal_entry demo_entries 1)) 1 \<noteq>
     Inl (HTTPException 404)"
  by (simp add: demo_delete_journal_entry_def demo_get_journal_entry_def demo_entries_def)

subsection \<open>Demonstration API: create\<close>

text \<open>
  C8, as the code has it. In the demonstration API, \<open>create\<close> returns an entry whose id is
  the number of fixture entries plus one, with the given text, \<open>created_on\<close> the first and
  \<open>last_edited_on\<close> the second of two successive clock readings; the fixture is left as
  it was, so a following \<open>get\<close> of the assigned id fails with 404.
\<close>

theorem demo_add_not_persisted:
  "demo_add_journal_entry es txt utcnow1 utcnow2 =
     (es, \<lparr>d_id = length es + 1, d_entry = txt, d_user_id = 0,
           d_created_on = utcnow1, d_last_edited_on = utcnow2\<rparr>) \<and>
   demo_get_journal_entry (fst (demo_add_journal_entry es txt utcnow1 utcnow2))
     (d_id (snd (demo_add_journal_entry es txt utcnow1 utcnow2))) = Inl (HTTPException 404)"
  by (simp add: demo_add_journal_entry_def demo_get_journal_entry_def)

text \<open>
  The claim C8 reads "\<open>created_on\<close> equal to \<open>last_edited_on\<close>" and "a subsequent get of the
  assigned id returns the created entry". On the fixture, with clock readings one
  microsecond apart, the two timestamps differ, the assigned id is 6, and \<open>get\<close> of 6 fails
  with 404.
\<close>

theorem demo_add_counterexample:
  "d_created_on (snd (demo_add_journal_entry demo_entries ''Had coffee''
        1700000000000000 1700000000000001)) \<noteq>
   d_last_edited_on (snd (demo_add_journal_entry demo_entries ''Had coffee''
        1700000000000000 1700000000000001)) \<and>
   d_id (snd (demo_add_journal_entry demo_entries ''Had coffee''
        1700000000000000 1700000000000001)) = 6 \<and>
   demo_get_journal_entry
     (fst (demo_add_journal_entry demo_entries ''Had coffee'' 1700000000000000 1700000000000001))
     6 = Inl (HTTPException 404)"
  by (simp add: demo_add_journal_entry_def demo_get_journal_entry_def demo_entries_def)

subsection \<open>Demonstration API: update\<close>

text \<open>
  C9 at the fixture. \<open>update\<close> of index 1 with the text \<open>Had tea\<close> sets the text of the
  first entry, in the fixture and in the answer, and leaves its \<open>last_edited_on\<close> at the
  fixture's value 2022-07-01T04:29:50.307527: the handler reads no clock, where
  \<open>Entry.update\<close> sets \<open>last_edited_on\<close> to the current time.
\<close>

theorem demo_update_stale_last_edited_on:
  "demo_update_journal_entry demo_entries ''Had tea'' 1 =
     (demo_entries[0 := \<lparr>d_id = 1, d_entry = ''Had tea'', d_user_id = 0,
         d_created_on = 1656649790307527, d_last_edited_on = 1656649790307527\<rparr>],
      Inr \<lparr>d_id = 1, d_entry = ''Had tea'', d_user_id = 0,
         d_created_on = 1656649790307527, d_last_edited_on = 1656649790307527\<rparr>)"
  by (simp add: demo_update_journal_entry_def demo_entries_def Let_def)

subsection \<open>The confirmation handler on a missing user\<close>

text \<open>
  C10. When no stored user has the email that a token encodes: if the token is valid for
  the confirmation salt (signature good, within max age), \<open>confirm_email\<close> raises
  \<open>AttributeError\<close> on reading \<open>email_confirmed\<close> of \<open>None\<close> and renders no page; if the
  token is valid for the password-reset salt and the form is submitted, the
  password-reset handler renders its invalid-link page. \<open>confirm_email\<close> renders its
  invalid-link page exactly when \<open>loads\<close> fails (bad signature or expired).
\<close>

theorem confirm_email_missing_user:
  assumes absent: "find (\<lambda>u. email u = email_addr) (users db) = None"
  shows "(loads secret_key token ''email-confirmation-salt'' 3600 time_now = Inr email_addr \<longrightarrow>
            confirm_email db secret_key token time_now datetime_now = (db, Inl AttributeError)) \<and>
         (loads secret_key token ''password-reset-salt'' 3600 time_now = Inr email_addr \<longrightarrow>
            process_password_reset_token db secret_key token time_now (Some password_data)
              generate_password_hash =
              (db, Inr (Template ''users_api/password_reset_invalid.html''))) \<and>
         ((snd (confirm_email db secret_key token time_now datetime_now) =
             Inr (Template ''users_api/email_confirmation_invalid.html'')) =
          (\<exists>bad. loads secret_key token ''email-confirmation-salt'' 3600 time_now = Inl bad))"
  using absent
  by (auto simp: confirm_email_def process_password_reset_token_def
      split: sum.splits option.splits)

text \<open>
  The theorem at the store that \<open>fill_db\<close> leaves, for tokens that encode an email of no
  user, issued at second 0 and presented at second 1000.
\<close>

theorem confirm_email_missing_user_witness:
  "find (\<lambda>u. email u = ''ghost@example.com'') (users (fill_database rev 0)) = None \<and>
   loads ''secret'' (dumps ''secret'' ''ghost@example.com'' ''email-confirmation-salt'' 0)
     ''email-confirmation-salt'' 3600 1000 = Inr ''ghost@example.com'' \<and>
   confirm_email (fill_database rev 0) ''secret''
     (dumps ''secret'' ''ghost@example.com'' ''email-confirmation-salt'' 0) 1000 5 =
     (fill_database rev 0, Inl AttributeError) \<and>
   loads ''secret'' (dumps ''secret'' ''ghost@example.com'' ''password-reset-salt'' 0)
     ''password-reset-salt'' 3600 1000 = Inr ''ghost@example.com'' \<and>
   process_password_reset_token (fill_database rev 0) ''secret''
     (dumps ''secret'' ''ghost@example.com'' ''password-reset-salt'' 0) 1000
     (Some ''NewSecret456'') rev =
     (fill_database rev 0, Inr (Template ''users_api/password_reset_invalid.html''))"
proof -
  let ?db = "fill_database rev 0"
  have absent: "find (\<lambda>u. email u = ''ghost@example.com'') (users ?db) = None"
    by (simp add: fill_database_def User_init_def)
  have confirm: "loads ''secret'' (dumps ''secret'' ''ghost@example.com'' ''email-confirmation-salt'' 0)
     ''email-confirmation-salt'' 3600 1000 = Inr ''ghost@example.com''"
    by (simp add: loads_def dumps_def)
  have reset: "loads ''secret'' (dumps ''secret'' ''ghost@example.com'' ''password-reset-salt'' 0)
     ''password-reset-salt'' 3600 1000 = Inr ''ghost@example.com''"
    by (simp add: loads_def dumps_def)
  show ?thesis
    using absent confirm reset
      confirm_email_missing_user [OF absent, of "''secret''"
        "dumps ''secret'' ''ghost@example.com'' ''email-confirmation-salt'' 0" 1000 5]
      confirm_email_missing_user [OF absent, of "''secret''"
        "dumps ''secret'' ''ghost@example.com'' ''password-reset-salt'' 0" 1000 5
        "''NewSecret456''" rev]
    by simp
qed

end
